theory Spec2Isabelle
  imports Main "HOL-Library.Word" "HOL-Library.Sublist"
begin

section \<open>GoatCounter export/import (export.go): data model\<close>

text \<open>
  The model follows \<^verbatim>\<open>export.go\<close>. Go's \<^verbatim>\<open>int64\<close> identities and counters are
  modelled as \<open>int\<close> (no property below depends on overflow), \<^verbatim>\<open>zint.Uint128\<close> as a 128-bit word,
  Go pointers to optional values (\<^verbatim>\<open>*int64\<close>, \<^verbatim>\<open>*string\<close>) as \<open>option\<close>.
  \<^verbatim>\<open>time.Time\<close> and \<^verbatim>\<open>float64\<close> are type parameters \<open>'tm\<close> and \<open>'f\<close>: everything the code
  does with them goes through library calls, which are parameters of the model (record
  \<open>lib\<close> below).
\<close>

type_synonym uint128 = "128 word"

text \<open>\<^verbatim>\<open>const ExportVersion = "1"\<close>\<close>

definition ExportVersion :: string where
  "ExportVersion = ''1''"

text \<open>
  The \<^verbatim>\<open>Hit\<close> struct is declared in another file of the package; these are the fields
  that \<^verbatim>\<open>export.go\<close> reads or writes, with the types it uses them at.
\<close>

record ('tm, 'f) Hit =
  ID :: int
  Site :: int
  Session :: uint128
  OldSession :: "int option"
  Path :: string
  Title :: string
  Ref :: string
  RefScheme :: "string option"
  Browser :: string
  Size :: "'f list"
  Location :: string
  Event :: bool
  Bot :: int
  FirstVisit :: bool
  CreatedAt :: 'tm

text \<open>\<^verbatim>\<open>type ExportRow struct\<close>, fields in order.\<close>

record ExportRow =
  Path :: string
  Title :: string
  Event :: string
  Bot :: string
  Session :: string
  FirstVisit :: string
  Ref :: string
  RefScheme :: string
  Browser :: string
  Size :: string
  Location :: string
  CreatedAt :: string

text \<open>\<^verbatim>\<open>type Export struct\<close>.\<close>

record 'tm Export =
  ID :: int
  SiteID :: int
  StartFromHitID :: int
  LastHitID :: "int option"
  Path :: string
  CreatedAt :: 'tm
  FinishedAt :: "string option"
  NumRows :: "int option"
  Size :: "string option"
  Hash :: "string option"
  Error :: "string option"

text \<open>
  Errors as values. \<open>External\<close> carries the message of an error produced by a
  collaborator (CSV reader, database, file system, number parser); the others are the
  errors \<^verbatim>\<open>export.go\<close> builds itself or receives from the validator.
\<close>

datatype vfault = MustBeSet | NotBoolean | NotInteger | NotDate | NotIncluded

datatype error =
    EOF
  | External string
  | WrongVersion string string
  | WrongFieldCount nat nat
  | Invalid "(string \<times> vfault) list"

text \<open>A Go call either returns or panics.\<close>

datatype 'a outcome = Panics string | Returns 'a

subsection \<open>Library calls\<close>

text \<open>
  The calls into \<^verbatim>\<open>zvalidate\<close>, \<^verbatim>\<open>zfloat\<close>, \<^verbatim>\<open>uuid\<close>, \<^verbatim>\<open>time\<close> and \<^verbatim>\<open>fmt\<close> (for the
  size in MiB), and the four referrer-scheme constants of the package, are parameters.
  A validator call is modelled by its parser: \<open>None\<close> (or \<open>False\<close>) means that the
  call appends a message to the validator and returns the zero value.
\<close>

record ('tm, 'f) lib =
  zv_Required :: "string \<Rightarrow> bool"
  zv_Boolean :: "string \<Rightarrow> bool option"
  zv_Integer :: "string \<Rightarrow> int option"
  zv_Date :: "string \<Rightarrow> 'tm option"
  zv_Include :: "string \<Rightarrow> string list \<Rightarrow> bool"
  RefSchemes :: "string list"
  zero_time :: 'tm
  time_Format :: "'tm \<Rightarrow> string"
  zfloat_Join :: "'f list \<Rightarrow> string"
  Floats_UnmarshalText :: "string \<Rightarrow> error + 'f list"
  uuid_String :: "uint128 \<Rightarrow> string"
  format_MiB :: "int \<Rightarrow> string"

subsection \<open>Formatting done by the Go standard library\<close>

text \<open>\<^verbatim>\<open>fmt.Sprintf("%t", b)\<close>\<close>

definition fmt_t :: "bool \<Rightarrow> string" where
  "fmt_t b = (if b then ''true'' else ''false'')"

text \<open>\<^verbatim>\<open>strconv.FormatInt(n, 10)\<close> and \<^verbatim>\<open>fmt.Sprintf("%d", n)\<close>\<close>

fun digits10 :: "nat \<Rightarrow> string" where
  "digits10 n =
     (if n < 10 then [char_of (48 + n)]
      else digits10 (n div 10) @ [char_of (48 + n mod 10)])"

declare digits10.simps [simp del]

definition FormatInt :: "int \<Rightarrow> string" where
  "FormatInt n = (if n < 0 then CHR ''-'' # digits10 (nat (- n)) else digits10 (nat n))"

section \<open>Row codec\<close>

text \<open>
  The row written for one hit, from the loop body of \<^verbatim>\<open>Export.Run\<close>
  (\<^verbatim>\<open>c.Write([]string{hit.Path, hit.Title, ...})\<close>).
\<close>

definition export_row :: "('tm, 'f) lib \<Rightarrow> ('tm, 'f) Hit \<Rightarrow> string list" where
  "export_row L hit =
     (let s = (case Hit.OldSession hit of
                 Some old \<Rightarrow> FormatInt old
               | None \<Rightarrow> uuid_String L (Hit.Session hit));
          rs = (case Hit.RefScheme hit of Some r \<Rightarrow> r | None \<Rightarrow> '''')
      in [Hit.Path hit, Hit.Title hit, fmt_t (Hit.Event hit), FormatInt (Hit.Bot hit), s,
          fmt_t (Hit.FirstVisit hit), Hit.Ref hit, rs, Hit.Browser hit,
          zfloat_Join L (Hit.Size hit), Hit.Location hit,
          time_Format L (Hit.CreatedAt hit)])"

text \<open>The header row written by \<^verbatim>\<open>Export.Run\<close>.\<close>

definition export_header :: "string list" where
  "export_header =
     [ExportVersion @ ''Path'', ''Title'', ''Event'', ''Bot'', ''Session'', ''FirstVisit'',
      ''Referrer'', ''Referrer scheme'', ''Browser'', ''Screen size'', ''Location'', ''Date'']"

text \<open>
  \<^verbatim>\<open>func (row *ExportRow) Read(line []string) error\<close>: the field count is checked
  against the 12 fields of the struct, then the fields are set by position.
\<close>

definition Read :: "string list \<Rightarrow> error + ExportRow" where
  "Read line =
     (if length line \<noteq> 12 then Inl (WrongFieldCount (length line) 12)
      else Inr \<lparr>ExportRow.Path = line ! 0, ExportRow.Title = line ! 1,
                ExportRow.Event = line ! 2, ExportRow.Bot = line ! 3,
                ExportRow.Session = line ! 4, ExportRow.FirstVisit = line ! 5,
                ExportRow.Ref = line ! 6, ExportRow.RefScheme = line ! 7,
                ExportRow.Browser = line ! 8, ExportRow.Size = line ! 9,
                ExportRow.Location = line ! 10, ExportRow.CreatedAt = line ! 11\<rparr>)"

text \<open>
  The validator: the list of (key, message) pairs appended so far.
  \<^verbatim>\<open>v.ErrorOrNil()\<close> is nil when the list is empty.
\<close>

type_synonym Validator = "(string \<times> vfault) list"

definition v_check :: "Validator \<Rightarrow> string \<Rightarrow> vfault \<Rightarrow> bool \<Rightarrow> Validator" where
  "v_check v key msg ok = (if ok then v else v @ [(key, msg)])"

definition ErrorOrNil :: "Validator \<Rightarrow> error option" where
  "ErrorOrNil v = (if v = [] then None else Some (Invalid v))"

text \<open>
  \<^verbatim>\<open>func (row ExportRow) Hit(siteID int64) (Hit, error)\<close>. Go returns the pair; so does
  the model. A failed validator call leaves the zero value in the field. When the Size
  column is not empty the function returns the result of \<^verbatim>\<open>UnmarshalText\<close> and never
  reaches \<^verbatim>\<open>v.ErrorOrNil()\<close>; a failed \<^verbatim>\<open>UnmarshalText\<close> leaves \<^verbatim>\<open>hit.Size\<close> nil.
\<close>

definition Hit :: "('tm, 'f) lib \<Rightarrow> ExportRow \<Rightarrow> int \<Rightarrow> ('tm, 'f) Hit \<times> error option" where
  "Hit L row siteID =
     (let hit0 = \<lparr>Hit.ID = 0, Hit.Site = siteID, Hit.Session = 0, Hit.OldSession = None,
                  Hit.Path = ExportRow.Path row, Hit.Title = ExportRow.Title row,
                  Hit.Ref = ExportRow.Ref row, Hit.RefScheme = None,
                  Hit.Browser = ExportRow.Browser row, Hit.Size = [],
                  Hit.Location = ExportRow.Location row, Hit.Event = False, Hit.Bot = 0,
                  Hit.FirstVisit = False, Hit.CreatedAt = zero_time L\<rparr>;
          v1 = v_check [] ''path'' MustBeSet (zv_Required L (ExportRow.Path row));
          ev = zv_Boolean L (ExportRow.Event row);
          v2 = v_check v1 ''event'' NotBoolean (ev \<noteq> None);
          bt = zv_Integer L (ExportRow.Bot row);
          v3 = v_check v2 ''bot'' NotInteger (bt \<noteq> None);
          fv = zv_Boolean L (ExportRow.FirstVisit row);
          v4 = v_check v3 ''firstVisit'' NotBoolean (fv \<noteq> None);
          dt = zv_Date L (ExportRow.CreatedAt row);
          v5 = v_check v4 ''createdAt'' NotDate (dt \<noteq> None);
          hit1 = hit0\<lparr>Hit.Event := (case ev of Some b \<Rightarrow> b | None \<Rightarrow> False),
                      Hit.Bot := (case bt of Some n \<Rightarrow> n | None \<Rightarrow> 0),
                      Hit.FirstVisit := (case fv of Some b \<Rightarrow> b | None \<Rightarrow> False),
                      Hit.CreatedAt := (case dt of Some t \<Rightarrow> t | None \<Rightarrow> zero_time L)\<rparr>;
          v6 = (if ExportRow.RefScheme row \<noteq> ''''
                then v_check v5 ''refScheme'' NotIncluded
                       (zv_Include L (ExportRow.RefScheme row) (RefSchemes L))
                else v5);
          hit2 = (if ExportRow.RefScheme row \<noteq> ''''
                  then hit1\<lparr>Hit.RefScheme := Some (ExportRow.RefScheme row)\<rparr>
                  else hit1)
      in if ExportRow.Size row \<noteq> ''''
         then (case Floats_UnmarshalText L (ExportRow.Size row) of
                 Inl err \<Rightarrow> (hit2, Some err)
               | Inr sz \<Rightarrow> (hit2\<lparr>Hit.Size := sz\<rparr>, None))
         else (hit2, ErrorOrNil v6))"

section \<open>A reference instance of the library calls\<close>

text \<open>
  A small executable instance of the library parameters, used to run the model on
  concrete rows: times are UTC date-times written \<^verbatim>\<open>2006-01-02T15:04:05Z\<close>, screen sizes
  are whole numbers, booleans are \<^verbatim>\<open>true\<close> and \<^verbatim>\<open>false\<close>, integers are decimal.
\<close>

record utc_time =
  year :: nat
  month :: nat
  day :: nat
  hour :: nat
  minute :: nat
  second :: nat

definition is_digit :: "char \<Rightarrow> bool" where
  "is_digit c = (48 \<le> (of_char c :: nat) \<and> (of_char c :: nat) \<le> 57)"

definition parse_nat :: "string \<Rightarrow> nat option" where
  "parse_nat s =
     (if s = [] \<or> \<not> list_all is_digit s then None
      else Some (foldl (\<lambda>a c. 10 * a + (of_char c - 48)) 0 s))"

definition parse_int :: "string \<Rightarrow> int option" where
  "parse_int s =
     (case s of
        [] \<Rightarrow> None
      | c # r \<Rightarrow>
          if c = CHR ''-'' then map_option (\<lambda>n. - int n) (parse_nat r)
          else if c = CHR ''+'' then map_option int (parse_nat r)
          else map_option int (parse_nat s))"

definition pad0 :: "nat \<Rightarrow> nat \<Rightarrow> string" where
  "pad0 k n = replicate (k - length (digits10 n)) CHR ''0'' @ digits10 n"

definition format_utc :: "utc_time \<Rightarrow> string" where
  "format_utc t =
     pad0 4 (year t) @ ''-'' @ pad0 2 (month t) @ ''-'' @ pad0 2 (day t) @ ''T'' @
     pad0 2 (hour t) @ '':'' @ pad0 2 (minute t) @ '':'' @ pad0 2 (second t) @ ''Z''"

definition parse_utc :: "string \<Rightarrow> utc_time option" where
  "parse_utc s =
     (if length s \<noteq> 20 \<or> s ! 4 \<noteq> CHR ''-'' \<or> s ! 7 \<noteq> CHR ''-'' \<or> s ! 10 \<noteq> CHR ''T'' \<or>
         s ! 13 \<noteq> CHR '':'' \<or> s ! 16 \<noteq> CHR '':'' \<or> s ! 19 \<noteq> CHR ''Z'' then None
      else
        (case (parse_nat (take 4 s), parse_nat (take 2 (drop 5 s)),
               parse_nat (take 2 (drop 8 s)), parse_nat (take 2 (drop 11 s)),
               parse_nat (take 2 (drop 14 s)), parse_nat (take 2 (drop 17 s))) of
           (Some y, Some mo, Some d, Some h, Some mi, Some se) \<Rightarrow>
             if 1 \<le> mo \<and> mo \<le> 12 \<and> 1 \<le> d \<and> d \<le> 31 \<and> h < 24 \<and> mi < 60 \<and> se < 60
             then Some \<lparr>year = y, month = mo, day = d, hour = h, minute = mi, second = se\<rparr>
             else None
         | _ \<Rightarrow> None))"

fun join_with :: "string \<Rightarrow> string list \<Rightarrow> string" where
  "join_with sep [] = []"
| "join_with sep [x] = x"
| "join_with sep (x # y # ys) = x @ sep @ join_with sep (y # ys)"

fun split_on :: "char \<Rightarrow> string \<Rightarrow> string list" where
  "split_on c [] = [[]]"
| "split_on c (x # xs) =
     (if x = c then [] # split_on c xs
      else (case split_on c xs of
              [] \<Rightarrow> [[x]]
            | w # ws \<Rightarrow> (x # w) # ws))"

fun parse_all :: "string list \<Rightarrow> error + nat list" where
  "parse_all [] = Inr []"
| "parse_all (w # ws) =
     (case parse_nat w of
        None \<Rightarrow> Inl (External (''strconv.ParseFloat: parsing '' @ w @ '': invalid syntax''))
      | Some n \<Rightarrow> (case parse_all ws of Inl e \<Rightarrow> Inl e | Inr ns \<Rightarrow> Inr (n # ns)))"

definition hexchar :: "nat \<Rightarrow> char" where
  "hexchar d = (if d < 10 then char_of (48 + d) else char_of (87 + d))"

primrec hexs :: "nat \<Rightarrow> nat \<Rightarrow> string" where
  "hexs 0 n = []"
| "hexs (Suc k) n = hexs k (n div 16) @ [hexchar (n mod 16)]"

definition ref_uuid :: "uint128 \<Rightarrow> string" where
  "ref_uuid w =
     (let h = hexs 32 (unat w)
      in take 8 h @ ''-'' @ take 4 (drop 8 h) @ ''-'' @ take 4 (drop 12 h) @ ''-'' @
         take 4 (drop 16 h) @ ''-'' @ drop 20 h)"

definition ref_MiB :: "int \<Rightarrow> string" where
  "ref_MiB bytes =
     (let t = (bytes * 10 + 524288) div 1048576
      in FormatInt (t div 10) @ ''.'' @ FormatInt (t mod 10))"

definition ref_lib :: "(utc_time, nat) lib" where
  "ref_lib =
     \<lparr>zv_Required = (\<lambda>s. s \<noteq> ''''),
      zv_Boolean = (\<lambda>s. if s = ''true'' then Some True
                         else if s = ''false'' then Some False else None),
      zv_Integer = parse_int,
      zv_Date = parse_utc,
      zv_Include = (\<lambda>s xs. s \<in> set xs),
      RefSchemes = [''h'', ''o'', ''g'', ''c''],
      zero_time = \<lparr>year = 1, month = 1, day = 1, hour = 0, minute = 0, second = 0\<rparr>,
      time_Format = format_utc,
      zfloat_Join = (\<lambda>xs. join_with '','' (map digits10 xs)),
      Floats_UnmarshalText = (\<lambda>s. parse_all (split_on CHR '','' s)),
      uuid_String = ref_uuid,
      format_MiB = ref_MiB\<rparr>"

section \<open>Import\<close>

text \<open>
  \<^verbatim>\<open>errors.NewGroup(50)\<close>: a bounded collector of errors. \<open>Group_Append\<close> returns
  whether the error was a real one (not nil); beyond the capacity an error is counted
  and not retained.
\<close>

record Group =
  retained :: "error list"
  nerrs :: nat
  MaxSize :: nat

definition NewGroup :: "nat \<Rightarrow> Group" where
  "NewGroup m = \<lparr>retained = [], nerrs = 0, MaxSize = m\<rparr>"

definition Group_Append :: "Group \<Rightarrow> error option \<Rightarrow> bool \<times> Group" where
  "Group_Append g err =
     (case err of
        None \<Rightarrow> (False, g)
      | Some e \<Rightarrow>
          (True, g\<lparr>nerrs := nerrs g + 1,
                   retained := (if length (retained g) < MaxSize g then retained g @ [e]
                                else retained g)\<rparr>))"

text \<open>
  Modelled from the spec: the in-memory ingest sink \<^verbatim>\<open>Memstore\<close>, declared in another
  file of the package. The spec gives it two capabilities: \<^verbatim>\<open>ingest(record)\<close>, which
  accepts one record, and \<^verbatim>\<open>sessionID()\<close>, which mints a fresh session identity. The
  model keeps the accepted records in order and mints identities from a counter, so
  that the identities minted from one store are pairwise distinct and, started at 0,
  never the zero value.
\<close>

record ('tm, 'f) memstore =
  hits :: "('tm, 'f) Hit list"
  minted :: uint128

definition Memstore_SessionID :: "('tm, 'f) memstore \<Rightarrow> uint128 \<times> ('tm, 'f) memstore" where
  "Memstore_SessionID ms = (minted ms + 1, ms\<lparr>minted := minted ms + 1\<rparr>)"

definition Memstore_Append :: "('tm, 'f) memstore \<Rightarrow> ('tm, 'f) Hit \<Rightarrow> ('tm, 'f) memstore" where
  "Memstore_Append ms hit = ms\<lparr>hits := hits ms @ [hit]\<rparr>"

text \<open>Mails handed to \<^verbatim>\<open>blackmail.Send\<close> by the import (a failed send is only logged).\<close>

datatype mail = ImportErrorMail error | ImportDoneMail int Group

record ('tm, 'f) import_state =
  store :: "('tm, 'f) memstore"
  sessions :: "string \<rightharpoonup> uint128"
  n :: int
  errs :: Group
  mails :: "mail list"
  wiped :: bool

text \<open>\<^verbatim>\<open>func importError(l zlog.Log, user User, report error)\<close>\<close>

definition importError :: "('tm, 'f) import_state \<Rightarrow> error \<Rightarrow> ('tm, 'f) import_state" where
  "importError st report = st\<lparr>mails := mails st @ [ImportErrorMail report]\<rparr>"

definition skip_row :: "('tm, 'f) import_state \<Rightarrow> error \<Rightarrow> ('tm, 'f) import_state" where
  "skip_row st err = st\<lparr>errs := snd (Group_Append (errs st) (Some err))\<rparr>"

text \<open>
  The end of the loop body of \<^verbatim>\<open>Import\<close>, for a row that decoded:
  \<^verbatim>\<open>
  s, ok := sessions[row.Session]
  if !ok {
      sessions[row.Session] = Memstore.SessionID()
  }
  hit.Session = s
  Memstore.Append(hit)
  n++
  \<close>
  When the token is not in the map, \<^verbatim>\<open>s\<close> is the zero value of \<^verbatim>\<open>zint.Uint128\<close>, and it
  is \<^verbatim>\<open>s\<close> that is assigned to the hit.
\<close>

definition ingest ::
  "('tm, 'f) import_state \<Rightarrow> ExportRow \<Rightarrow> ('tm, 'f) Hit \<Rightarrow> ('tm, 'f) import_state" where
  "ingest st row hit =
     (case sessions st (ExportRow.Session row) of
        None \<Rightarrow>
          (let (fresh, ms) = Memstore_SessionID (store st)
           in st\<lparr>sessions := (sessions st)(ExportRow.Session row \<mapsto> fresh),
                 store := Memstore_Append ms (hit\<lparr>Hit.Session := 0\<rparr>),
                 n := n st + 1\<rparr>)
      | Some s \<Rightarrow>
          st\<lparr>store := Memstore_Append (store st) (hit\<lparr>Hit.Session := s\<rparr>),
             n := n st + 1\<rparr>)"

text \<open>
  The stream is the list of results of the successive \<^verbatim>\<open>c.Read()\<close> calls of the CSV
  reader: a record, or an error; after the last element every call returns \<^verbatim>\<open>io.EOF\<close>.
  \<open>import_step\<close> is one pass through the loop body for a result that is not
  \<^verbatim>\<open>io.EOF\<close>.
\<close>

definition import_step ::
  "('tm, 'f) lib \<Rightarrow> int \<Rightarrow> error + string list \<Rightarrow> ('tm, 'f) import_state \<Rightarrow>
   ('tm, 'f) import_state" where
  "import_step L siteID r st =
     (case r of
        Inl err \<Rightarrow> skip_row st err
      | Inr line \<Rightarrow>
          (case Read line of
             Inl err \<Rightarrow> skip_row st err
           | Inr row \<Rightarrow>
               (case Hit L row siteID of
                  (hit, Some err) \<Rightarrow> skip_row st err
                | (hit, None) \<Rightarrow> ingest st row hit)))"

fun import_loop ::
  "('tm, 'f) lib \<Rightarrow> int \<Rightarrow> (error + string list) list \<Rightarrow> ('tm, 'f) import_state \<Rightarrow>
   ('tm, 'f) import_state" where
  "import_loop L siteID [] st = st"
| "import_loop L siteID (r # rs) st =
     (if r = Inl EOF then st else import_loop L siteID rs (import_step L siteID r st))"

text \<open>
  \<^verbatim>\<open>func Import(ctx context.Context, fp io.Reader, replace, email bool)\<close>.
  \<open>siteID\<close> is \<^verbatim>\<open>site.ID\<close>, \<open>DeleteAll\<close> the result of \<^verbatim>\<open>site.DeleteAll(ctx)\<close>, \<open>ms\<close>
  the state of the ingest sink when the import starts. In the version-mismatch branch the
  arguments of \<^verbatim>\<open>errors.Errorf\<close> are evaluated before \<^verbatim>\<open>importError\<close> is called:
  \<^verbatim>\<open>header[0]\<close> panics on an empty header, \<^verbatim>\<open>header[0][:1]\<close> on an empty first cell.
  The pauses (\<^verbatim>\<open>time.Sleep\<close>) and the log lines have no effect on the state.
\<close>

definition Import ::
  "('tm, 'f) lib \<Rightarrow> int \<Rightarrow> (error + string list) list \<Rightarrow> bool \<Rightarrow> bool \<Rightarrow> error option \<Rightarrow>
   ('tm, 'f) memstore \<Rightarrow> ('tm, 'f) import_state outcome" where
  "Import L siteID reads replace email DeleteAll ms =
     (let st0 = \<lparr>store = ms, sessions = Map.empty, n = 0, errs = NewGroup 50, mails = [],
                 wiped = False\<rparr>
      in case reads of
           [] \<Rightarrow> Returns (importError st0 EOF)
         | Inl err # rest \<Rightarrow> Returns (importError st0 err)
         | Inr header # rest \<Rightarrow>
             if length header = 0 \<or> \<not> prefix ExportVersion (header ! 0) then
               (case header of
                  [] \<Rightarrow> Panics ''index out of range [0] with length 0''
                | cell # _ \<Rightarrow>
                    if length cell < 1
                    then Panics ''slice bounds out of range [:1] with length 0''
                    else Returns (importError st0 (WrongVersion (take 1 cell) ExportVersion)))
             else
               (case (if replace then DeleteAll else None) of
                  Some err \<Rightarrow> Returns (importError st0 err)
                | None \<Rightarrow>
                    (let st = import_loop L siteID rest (st0\<lparr>wiped := replace\<rparr>)
                     in Returns (if email
                                 then st\<lparr>mails := mails st @ [ImportDoneMail (n st) (errs st)]\<rparr>
                                 else st))))"

section \<open>Export\<close>

text \<open>
  Modelled from the spec: \<^verbatim>\<open>Hits.List\<close>, the paginated read of the Record Store Adapter,
  declared in another file of the package. The spec gives its contract as
  \<^verbatim>\<open>listAfter(afterID, limit) -> (records, newLastID, err)\<close>: strictly ascending by
  identity, at most \<open>limit\<close> records, an empty result signals the end of the data. Over
  a store \<open>recs\<close> (held in ascending order of identity) the model returns the first
  \<open>limit\<close> records after \<open>after\<close>, and as new last identity the identity of the last
  record returned, or \<open>after\<close> itself when there is none.
\<close>

definition store_List ::
  "('tm, 'f) Hit list \<Rightarrow> nat \<Rightarrow> int \<Rightarrow> ('tm, 'f) Hit list \<times> int \<times> error option" where
  "store_List recs limit after =
     (let hs = take limit (filter (\<lambda>h. after < Hit.ID h) recs)
      in (hs, (if hs = [] then after else Hit.ID (last hs)), None))"

text \<open>
  The collaborators of one run of \<^verbatim>\<open>Export.Run\<close>, each given by what it returns:
  \<open>hits_List after\<close> is \<^verbatim>\<open>hits.List(ctx, 5000, after)\<close>; \<open>csv_Flush k\<close> is
  \<^verbatim>\<open>c.Error()\<close> after the \<open>k\<close>-th \<^verbatim>\<open>c.Flush()\<close> of the run (counted from 0); \<open>db_set_error\<close>
  and \<open>db_finish\<close> are the results of the two \<^verbatim>\<open>update exports\<close> statements; \<open>Now\<close> is
  \<^verbatim>\<open>Now().Format(zdb.Date)\<close>.
\<close>

record ('tm, 'f) export_env =
  hits_List :: "int \<Rightarrow> ('tm, 'f) Hit list \<times> int \<times> error option"
  csv_Flush :: "nat \<Rightarrow> error option"
  gzfp_Close :: "error option"
  fp_Sync :: "error option"
  fp_Stat :: "error + int"
  fp_Close :: "error option"
  HashFile :: "string \<times> error option"
  db_set_error :: "error option"
  db_finish :: "error option"
  Now :: string

text \<open>
  The state of a run: the struct \<^verbatim>\<open>e\<close> (\<open>job\<close>), the row of the job in the table
  \<^verbatim>\<open>exports\<close> (\<open>db_row\<close>), the rows written to the CSV writer and not yet flushed
  (\<open>pending\<close>), the rows flushed to the compressed stream (\<open>artifact\<close>), the number of
  flushes so far, the variable \<^verbatim>\<open>exportErr\<close>, whether the artifact file exists, and
  whether the completion mail was sent.
\<close>

record 'tm export_state =
  job :: "'tm Export"
  db_row :: "'tm Export"
  pending :: "string list list"
  artifact :: "string list list"
  flushes :: nat
  exportErr :: "error option"
  file_exists :: bool
  mail_sent :: bool

text \<open>\<^verbatim>\<open>err.Error()\<close>\<close>

fun Error_text :: "error \<Rightarrow> string" where
  "Error_text EOF = ''EOF''"
| "Error_text (External m) = m"
| "Error_text (WrongVersion got want) =
     ''wrong version of CSV database: '' @ got @ '' (expected: '' @ want @ '')''"
| "Error_text (WrongFieldCount got want) =
     ''wrong number of fields: '' @ digits10 got @ '' (want: '' @ digits10 want @ '')''"
| "Error_text (Invalid v) = ''validation failed''"

text \<open>
  One pass through the body of the \<^verbatim>\<open>for\<close> loop of \<^verbatim>\<open>Export.Run\<close>, entered with
  \<^verbatim>\<open>*e.LastHitID = after\<close>. The result says whether the loop goes on, and gives the new
  \<^verbatim>\<open>*e.LastHitID\<close> and the new state. \<^verbatim>\<open>e.LastHitID = &last\<close> is the second statement
  of the body, before the batch is looked at. \<^verbatim>\<open>e.NumRows\<close> was set before the loop, so
  the increment finds it present.
\<close>

definition export_iter ::
  "('tm, 'f) lib \<Rightarrow> ('tm, 'f) export_env \<Rightarrow> int \<Rightarrow> 'tm export_state \<Rightarrow>
   bool \<times> int \<times> 'tm export_state" where
  "export_iter L env after st =
     (case hits_List env after of
        (batch, lastID, err) \<Rightarrow>
          (let st1 = st\<lparr>exportErr := err, job := (job st)\<lparr>LastHitID := Some lastID\<rparr>\<rparr>
           in if length batch = 0 then (False, lastID, st1)
              else if err \<noteq> None then (False, lastID, st1)
              else
                (let st2 = st1\<lparr>job := (job st1)\<lparr>NumRows :=
                                   map_option (\<lambda>k. k + int (length batch)) (NumRows (job st1))\<rparr>,
                               pending := pending st1 @ map (export_row L) batch\<rparr>;
                     ferr = csv_Flush env (flushes st2);
                     st3 = (case ferr of
                              None \<Rightarrow> st2\<lparr>artifact := artifact st2 @ pending st2,
                                          pending := [], flushes := Suc (flushes st2),
                                          exportErr := ferr\<rparr>
                            | Some _ \<Rightarrow> st2\<lparr>flushes := Suc (flushes st2), exportErr := ferr\<rparr>)
                 in (ferr = None, lastID, st3))))"

text \<open>
  The loop. It runs for as long as the adapter returns non-empty batches, so it is a
  partial function: \<open>None\<close> is a run whose loop never ends.
\<close>

partial_function (option) export_loop ::
  "('tm, 'f) lib \<Rightarrow> ('tm, 'f) export_env \<Rightarrow> int \<Rightarrow> 'tm export_state \<Rightarrow> 'tm export_state option"
  where
  "export_loop L env after st =
     (case export_iter L env after st of
        (continue, lastID, st') \<Rightarrow> if continue then export_loop L env lastID st' else Some st')"

declare export_loop.simps [code]

text \<open>
  The rest of \<^verbatim>\<open>Export.Run\<close>, after the loop: the failure branch
  (\<^verbatim>\<open>if exportErr != nil\<close>), then close, sync, stat, close, hash, and the final update
  of the row.
\<close>

definition export_finish ::
  "('tm, 'f) lib \<Rightarrow> ('tm, 'f) export_env \<Rightarrow> bool \<Rightarrow> 'tm export_state \<Rightarrow> 'tm export_state" where
  "export_finish L env mailUser st =
     (case exportErr st of
        Some err \<Rightarrow>
          st\<lparr>db_row := (if db_set_error env = None
                         then (db_row st)\<lparr>Error := Some (Error_text err)\<rparr>
                         else db_row st),
             file_exists := False\<rparr>
      | None \<Rightarrow>
          if gzfp_Close env \<noteq> None then st
          else if fp_Sync env \<noteq> None then st
          else
            (let size = (case fp_Stat env of Inr bytes \<Rightarrow> format_MiB L bytes | Inl _ \<Rightarrow> ''0'');
                 st1 = st\<lparr>job := (job st)\<lparr>Export.Size := Some size\<rparr>\<rparr>
             in if fp_Close env \<noteq> None then st1
                else
                  (case HashFile env of
                     (hash, herr) \<Rightarrow>
                       (let st2 = st1\<lparr>job := (job st1)\<lparr>Hash := Some hash\<rparr>\<rparr>
                        in if herr \<noteq> None then st2
                           else
                             (let st3 = st2\<lparr>db_row :=
                                    (if db_finish env = None
                                     then (db_row st2)\<lparr>FinishedAt := Some (Now env),
                                            NumRows := NumRows (job st2),
                                            Export.Size := Export.Size (job st2),
                                            Hash := Hash (job st2),
                                            LastHitID := LastHitID (job st2)\<rparr>
                                     else db_row st2)\<rparr>
                              in st3\<lparr>mail_sent := mailUser\<rparr>)))))"

text \<open>
  \<^verbatim>\<open>func (e *Export) Run(ctx context.Context, fp *os.File, mailUser bool)\<close>, on the
  struct \<open>e\<close> and the row \<open>row\<close> that \<^verbatim>\<open>Create\<close> inserted for it. The header is written
  to the CSV writer before the loop and is flushed with the first batch.
\<close>

definition export_start :: "'tm Export \<Rightarrow> 'tm Export \<Rightarrow> 'tm export_state" where
  "export_start e row =
     \<lparr>job = e\<lparr>LastHitID := Some (StartFromHitID e), NumRows := Some 0\<rparr>, db_row = row,
      pending = [export_header], artifact = [], flushes = 0, exportErr = None,
      file_exists = True, mail_sent = False\<rparr>"

definition Run ::
  "('tm, 'f) lib \<Rightarrow> ('tm, 'f) export_env \<Rightarrow> 'tm Export \<Rightarrow> 'tm Export \<Rightarrow> bool \<Rightarrow>
   'tm export_state option" where
  "Run L env e row mailUser =
     map_option (export_finish L env mailUser)
       (export_loop L env (StartFromHitID e) (export_start e row))"

text \<open>
  Decoding one CSV record as the loop body of \<^verbatim>\<open>Import\<close> does: \<^verbatim>\<open>row.Read(line)\<close>, then
  \<^verbatim>\<open>row.Hit(site.ID)\<close>; the record is kept when neither returns an error.
\<close>

definition decode_row :: "('tm, 'f) lib \<Rightarrow> int \<Rightarrow> string list \<Rightarrow> error + ('tm, 'f) Hit" where
  "decode_row L siteID line =
     (case Read line of
        Inl err \<Rightarrow> Inl err
      | Inr row \<Rightarrow>
          (case Hit L row siteID of
             (hit, Some err) \<Rightarrow> Inl err
           | (hit, None) \<Rightarrow> Inr hit))"

text \<open>
  The records the row codec is meant for: the path passes \<^verbatim>\<open>v.Required\<close>, the referrer
  scheme is absent or a non-empty member of the enumeration, and the library parsers
  read back what the formatters write for this record (booleans, bot code, timestamp,
  screen size).
\<close>

definition codec_valid :: "('tm, 'f) lib \<Rightarrow> ('tm, 'f) Hit \<Rightarrow> bool" where
  "codec_valid L h =
     (zv_Required L (Hit.Path h) \<and>
      zv_Boolean L (fmt_t (Hit.Event h)) = Some (Hit.Event h) \<and>
      zv_Boolean L (fmt_t (Hit.FirstVisit h)) = Some (Hit.FirstVisit h) \<and>
      zv_Integer L (FormatInt (Hit.Bot h)) = Some (Hit.Bot h) \<and>
      zv_Date L (time_Format L (Hit.CreatedAt h)) = Some (Hit.CreatedAt h) \<and>
      (case Hit.RefScheme h of
         None \<Rightarrow> True
       | Some r \<Rightarrow> r \<noteq> '''' \<and> zv_Include L r (RefSchemes L)) \<and>
      (if Hit.Size h = [] then zfloat_Join L (Hit.Size h) = ''''
       else zfloat_Join L (Hit.Size h) \<noteq> '''' \<and>
            Floats_UnmarshalText L (zfloat_Join L (Hit.Size h)) = Inr (Hit.Size h)))"

text \<open>
  The loop head reached after \<open>k\<close> passes through the loop body that all went on to the
  next pass (\<open>None\<close> when one of them left the loop).
\<close>

fun export_reach ::
  "('tm, 'f) lib \<Rightarrow> ('tm, 'f) export_env \<Rightarrow> nat \<Rightarrow> int \<Rightarrow> 'tm export_state \<Rightarrow>
   (int \<times> 'tm export_state) option" where
  "export_reach L env 0 after st = Some (after, st)"
| "export_reach L env (Suc k) after st =
     (case export_iter L env after st of
        (continue, lastID, st') \<Rightarrow>
          if continue then export_reach L env k lastID st' else None)"

section \<open>Sample inputs\<close>

definition sample_line :: "string \<Rightarrow> string \<Rightarrow> string \<Rightarrow> string list" where
  "sample_line path tok sz =
     [path, ''Home'', ''false'', ''0'', tok, ''true'', '''', '''', ''Firefox'', sz, ''NL'',
      ''2020-06-18T12:00:00Z'']"

definition sample_row :: "string \<Rightarrow> string \<Rightarrow> ExportRow" where
  "sample_row path sz =
     \<lparr>ExportRow.Path = path, ExportRow.Title = ''Home'', ExportRow.Event = ''false'',
      ExportRow.Bot = ''0'', ExportRow.Session = ''a'', ExportRow.FirstVisit = ''true'',
      ExportRow.Ref = '''', ExportRow.RefScheme = '''', ExportRow.Browser = ''Firefox'',
      ExportRow.Size = sz, ExportRow.Location = ''NL'',
      ExportRow.CreatedAt = ''2020-06-18T12:00:00Z''\<rparr>"

definition sample_time :: utc_time where
  "sample_time = \<lparr>year = 2020, month = 6, day = 18, hour = 12, minute = 0, second = 0\<rparr>"

definition sample_hit :: "int \<Rightarrow> uint128 \<Rightarrow> (utc_time, nat) Hit" where
  "sample_hit i s =
     \<lparr>Hit.ID = i, Hit.Site = 1, Hit.Session = s, Hit.OldSession = None, Hit.Path = ''/'',
      Hit.Title = ''Home'', Hit.Ref = ''example.com'', Hit.RefScheme = Some ''h'',
      Hit.Browser = ''Firefox'', Hit.Size = [1920, 1080, 1], Hit.Location = ''NL'',
      Hit.Event = False, Hit.Bot = 0, Hit.FirstVisit = True, Hit.CreatedAt = sample_time\<rparr>"

definition empty_store :: "(utc_time, nat) memstore" where
  "empty_store = \<lparr>hits = [], minted = 0\<rparr>"

text \<open>A job as \<^verbatim>\<open>Create\<close> leaves it: only identity, path, start and creation time set.\<close>

definition new_export :: "utc_time Export" where
  "new_export =
     \<lparr>Export.ID = 1, SiteID = 1, StartFromHitID = 0, LastHitID = None,
      Export.Path = ''/tmp/goatcounter-export-test-20200618T120000Z-0.csv.gz'',
      Export.CreatedAt = sample_time, FinishedAt = None, NumRows = None,
      Export.Size = None, Hash = None, Error = None\<rparr>"

text \<open>
  A run over the store \<open>recs\<close> in which the results of reading, of the flushes, of closing
  the compressed stream, of the sync and of hashing are given, and everything else
  succeeds.
\<close>

definition sample_env ::
  "(int \<Rightarrow> (utc_time, nat) Hit list \<times> int \<times> error option) \<Rightarrow> (nat \<Rightarrow> error option) \<Rightarrow>
   error option \<Rightarrow> error option \<Rightarrow> error option \<Rightarrow> (utc_time, nat) export_env" where
  "sample_env list flush gzclose sync hasherr =
     \<lparr>hits_List = list, csv_Flush = flush, gzfp_Close = gzclose, fp_Sync = sync,
      fp_Stat = Inr 1500000, fp_Close = None,
      HashFile = ((if hasherr = None then ''9f86d081884c7d65'' else ''''), hasherr),
      db_set_error = None, db_finish = None, Now = ''2020-06-18 12:00:01''\<rparr>"

definition three_hits :: "(utc_time, nat) Hit list" where
  "three_hits = [sample_hit 1 5, sample_hit 2 5, sample_hit 3 6]"

text \<open>The records an import handed to the ingest sink, in order.\<close>

definition ingested :: "('tm, 'f) import_state outcome \<Rightarrow> ('tm, 'f) Hit list" where
  "ingested r = (case r of Returns st \<Rightarrow> hits (store st) | Panics _ \<Rightarrow> [])"

definition good_env :: "(utc_time, nat) export_env" where
  "good_env = sample_env (store_List three_hits 5000) (\<lambda>k. None) None None None"

definition read_fails_env :: "(utc_time, nat) export_env" where
  "read_fails_env =
     sample_env (\<lambda>after. if after = 0 then (three_hits, 3, None)
                          else ([], after, Some (External ''Hits.List: connection reset'')))
       (\<lambda>k. None) None None None"

definition flush_fails_env :: "(utc_time, nat) export_env" where
  "flush_fails_env =
     sample_env (store_List three_hits 5000)
       (\<lambda>k. Some (External ''write: no space left on device'')) None None None"

definition hash_fails_env :: "(utc_time, nat) export_env" where
  "hash_fails_env =
     sample_env (store_List three_hits 5000) (\<lambda>k. None) None None
       (Some (External ''read: input/output error''))"

section \<open>Properties of the row codec\<close>

text \<open>
  C9. When the Screen-size column of a row is not empty and \<^verbatim>\<open>UnmarshalText\<close> fails on
  it, \<^verbatim>\<open>ExportRow.Hit\<close> returns exactly that failure: the error is the one
  \<^verbatim>\<open>UnmarshalText\<close> returned, whatever the validator has collected for the path, the
  booleans, the bot code, the timestamp and the referrer scheme.
\<close>

theorem size_parse_failure_returned:
  assumes "ExportRow.Size row \<noteq> ''''"
    and "Floats_UnmarshalText L (ExportRow.Size row) = Inl err"
  shows "snd (Hit L row siteID) = Some err"
  using assms by (simp add: Hit_def Let_def)

theorem size_parse_failure_returned_witness:
  "ExportRow.Size (sample_row '''' ''1920x1080'') \<noteq> '''' \<and>
   Floats_UnmarshalText ref_lib (ExportRow.Size (sample_row '''' ''1920x1080'')) =
     Inl (External ''strconv.ParseFloat: parsing 1920x1080: invalid syntax'') \<and>
   snd (Hit ref_lib (sample_row '''' ''1920x1080'') 1) =
     Some (External ''strconv.ParseFloat: parsing 1920x1080: invalid syntax'')"
proof -
  have side: "ExportRow.Size (sample_row '''' ''1920x1080'') \<noteq> ''''"
    by (simp add: sample_row_def)
  have fails: "Floats_UnmarshalText ref_lib (ExportRow.Size (sample_row '''' ''1920x1080'')) =
      Inl (External ''strconv.ParseFloat: parsing 1920x1080: invalid syntax'')"
    by code_simp
  from size_parse_failure_returned [OF side fails, of 1] side fails show ?thesis
    by simp
qed

text \<open>
  C3. A row with an empty Path and the Screen-size column \<^verbatim>\<open>1920,1080,1\<close>: the size
  parses, \<^verbatim>\<open>ExportRow.Hit\<close> returns from the Size branch with a nil error, and the
  record it returns has the empty path. The message that \<^verbatim>\<open>v.Required\<close> appended is
  never looked at.
\<close>

theorem empty_path_accepted_with_size:
  "snd (Hit ref_lib (sample_row '''' ''1920,1080,1'') 1) = None \<and>
   Hit.Path (fst (Hit ref_lib (sample_row '''' ''1920,1080,1'') 1)) = '''' \<and>
   decode_row ref_lib 1 (sample_line '''' ''a'' ''1920,1080,1'') =
     Inr (fst (Hit ref_lib (sample_row '''' ''1920,1080,1'') 1))"
  by code_simp

section \<open>Properties of the import\<close>

text \<open>
  C1. An import of a header and two rows that both carry the session token \<^verbatim>\<open>a\<close>: the
  first record is handed to the ingest sink with the zero session identity, the second
  with the identity minted for the token. The two rows share a token and do not share
  a session identity.
\<close>

theorem same_token_different_sessions:
  "map Hit.Session
     (ingested (Import ref_lib 1
        [Inr export_header, Inr (sample_line ''/'' ''a'' ''1920,1080,1''),
         Inr (sample_line ''/about'' ''a'' ''1920,1080,1'')]
        False False None empty_store)) = [0, 1]"
  by code_simp

text \<open>
  C5. An import whose header row has an empty first cell: the cell does not start with
  the version tag, and the import panics while building the error message; no mail is
  sent. Nothing is ingested either.
\<close>

theorem empty_header_cell_no_notification:
  "Import ref_lib 1
     [Inr ('''' # tl export_header), Inr (sample_line ''/'' ''a'' ''1920,1080,1'')]
     False True None empty_store =
   Panics ''slice bounds out of range [:1] with length 0''"
  by (simp add: Import_def ExportVersion_def)

text \<open>
  C10. When the first cell of the header row is the empty string, the import panics on
  \<^verbatim>\<open>header[0][:1]\<close> instead of reporting the version mismatch. When the first cell is
  not empty and does not start with the version tag, the branch reports the mismatch
  through \<^verbatim>\<open>importError\<close> and returns, with nothing ingested.
\<close>

theorem version_branch_panics_on_empty_cell:
  "Import L siteID (Inr ('''' # cells) # rest) replace email DeleteAll ms =
     Panics ''slice bounds out of range [:1] with length 0'' \<and>
   (cell \<noteq> '''' \<and> \<not> prefix ExportVersion cell \<longrightarrow>
      Import L siteID (Inr (cell # cells) # rest) replace email DeleteAll ms =
        Returns \<lparr>store = ms, sessions = Map.empty, n = 0, errs = NewGroup 50,
                 mails = [ImportErrorMail (WrongVersion (take 1 cell) ExportVersion)],
                 wiped = False\<rparr>)"
  by (simp add: Import_def ExportVersion_def importError_def)

theorem version_branch_panics_on_empty_cell_witness:
  "''2Path'' \<noteq> '''' \<and> \<not> prefix ExportVersion ''2Path'' \<and>
   Import ref_lib 1 [Inr (''2Path'' # tl export_header),
       Inr (sample_line ''/'' ''a'' ''1920,1080,1'')] False True None empty_store =
     Returns \<lparr>store = empty_store, sessions = Map.empty, n = 0, errs = NewGroup 50,
              mails = [ImportErrorMail (WrongVersion ''2'' ''1'')], wiped = False\<rparr>"
  using version_branch_panics_on_empty_cell
    [of ref_lib 1 "tl export_header" "[Inr (sample_line ''/'' ''a'' ''1920,1080,1'')]"
        False True None empty_store "''2Path''"]
  by (simp add: ExportVersion_def)

section \<open>Properties of the export\<close>

subsection \<open>One pass through the loop body\<close>

lemma export_iter_keeps:
  assumes "export_iter L env after st = (continue, lastID, st')"
  shows "db_row st' = db_row st" and "file_exists st' = file_exists st"
    and "mail_sent st' = mail_sent st"
    and "Export.Size (job st') = Export.Size (job st)" and "Hash (job st') = Hash (job st)"
    and "Error (job st') = Error (job st)"
  using assms
  by (auto simp: export_iter_def Let_def split: prod.splits if_splits option.splits)

lemma export_iter_continue:
  assumes "export_iter L env after st = (True, lastID, st')"
  shows "exportErr st' = None" and "pending st' = []"
  using assms
  by (auto simp: export_iter_def Let_def split: prod.splits if_splits option.splits)

lemma export_iter_stop_ok:
  assumes "export_iter L env after st = (False, lastID, st')" and "exportErr st' = None"
  shows "pending st' = pending st" and "artifact st' = artifact st"
  using assms
  by (auto simp: export_iter_def Let_def split: prod.splits if_splits option.splits)

lemma export_iter_read_error:
  assumes "hits_List env after = (batch, lastID, Some err)"
  shows "export_iter L env after st =
    (False, lastID, st\<lparr>exportErr := Some err, job := (job st)\<lparr>LastHitID := Some lastID\<rparr>\<rparr>)"
  using assms by (simp add: export_iter_def Let_def)

lemma export_iter_empty:
  assumes "hits_List env after = ([], lastID, err)"
  shows "export_iter L env after st =
    (False, lastID, st\<lparr>exportErr := err, job := (job st)\<lparr>LastHitID := Some lastID\<rparr>\<rparr>)"
  using assms by (simp add: export_iter_def Let_def)

lemma export_iter_flushed:
  assumes "hits_List env after = (batch, lastID, None)" and "batch \<noteq> []"
    and "csv_Flush env (flushes st) = None"
  shows "export_iter L env after st =
    (True, lastID,
     st\<lparr>exportErr := None,
        job := (job st)\<lparr>LastHitID := Some lastID,
                 NumRows := map_option (\<lambda>k. k + int (length batch)) (NumRows (job st))\<rparr>,
        pending := [], artifact := artifact st @ pending st @ map (export_row L) batch,
        flushes := Suc (flushes st)\<rparr>)"
  using assms by (simp add: export_iter_def Let_def)

lemma export_iter_flush_error:
  assumes "hits_List env after = (batch, lastID, None)" and "batch \<noteq> []"
    and "csv_Flush env (flushes st) = Some err"
  shows "export_iter L env after st =
    (False, lastID,
     st\<lparr>exportErr := Some err,
        job := (job st)\<lparr>LastHitID := Some lastID,
                 NumRows := map_option (\<lambda>k. k + int (length batch)) (NumRows (job st))\<rparr>,
        pending := pending st @ map (export_row L) batch,
        flushes := Suc (flushes st)\<rparr>)"
  using assms by (simp add: export_iter_def Let_def)

subsection \<open>The loop\<close>

lemma export_loop_step:
  "export_iter L env after st = (True, lastID, st') \<Longrightarrow>
   export_loop L env after st = export_loop L env lastID st'"
  by (subst export_loop.simps) simp

lemma export_loop_stop:
  "export_iter L env after st = (False, lastID, st') \<Longrightarrow> export_loop L env after st = Some st'"
  by (subst export_loop.simps) simp

lemma export_loop_reach:
  "export_reach L env k after st = Some (after', st') \<Longrightarrow>
   export_loop L env after st = export_loop L env after' st'"
proof (induction k arbitrary: after st)
  case 0
  then show ?case by simp
next
  case (Suc k)
  obtain c l s where it: "export_iter L env after st = (c, l, s)"
    by (cases "export_iter L env after st") auto
  with Suc.prems have c: "c" and r: "export_reach L env k l s = Some (after', st')"
    by (auto split: if_splits)
  from it c have "export_loop L env after st = export_loop L env l s"
    by (simp add: export_loop_step)
  with Suc.IH [OF r] show ?case by simp
qed

lemma export_reach_keeps:
  "export_reach L env k after st = Some (after', st') \<Longrightarrow>
   db_row st' = db_row st \<and> file_exists st' = file_exists st \<and> mail_sent st' = mail_sent st \<and>
   Export.Size (job st') = Export.Size (job st) \<and> Hash (job st') = Hash (job st)"
proof (induction k arbitrary: after st)
  case 0
  then show ?case by simp
next
  case (Suc k)
  obtain c l s where it: "export_iter L env after st = (c, l, s)"
    by (cases "export_iter L env after st") auto
  with Suc.prems have r: "export_reach L env k l s = Some (after', st')"
    by (auto split: if_splits)
  from Suc.IH [OF r] export_iter_keeps [OF it] show ?case by simp
qed

lemma export_loop_keeps:
  assumes "export_loop L env after st = Some st'"
  shows "db_row st' = db_row st \<and> file_exists st' = file_exists st \<and>
         mail_sent st' = mail_sent st \<and>
         Export.Size (job st') = Export.Size (job st) \<and> Hash (job st') = Hash (job st)"
  using assms
proof (induction rule: export_loop.raw_induct [rotated 1, consumes 1])
  case (1 loop L env after st st')
  obtain c l s where it: "export_iter L env after st = (c, l, s)"
    by (cases "export_iter L env after st") auto
  show ?case
  proof (cases c)
    case True
    with 1(2) it have "loop L env l s = Some st'" by simp
    from 1(1) [OF this] export_iter_keeps [OF it] show ?thesis by simp
  next
    case False
    with 1(2) it have "st' = s" by simp
    with export_iter_keeps [OF it] show ?thesis by simp
  qed
qed

lemma export_loop_flushed:
  assumes "export_loop L env after st = Some st'"
    and "pending st = [] \<or> (pending st = [export_header] \<and> artifact st = [])"
    and "exportErr st' = None"
  shows "pending st' = [] \<or> (pending st' = [export_header] \<and> artifact st' = [])"
  using assms
proof (induction rule: export_loop.raw_induct [rotated 1, consumes 1])
  case (1 loop L env after st st')
  obtain c l s where it: "export_iter L env after st = (c, l, s)"
    by (cases "export_iter L env after st") auto
  show ?case
  proof (cases c)
    case True
    with 1(2) it have next_pass: "loop L env l s = Some st'" by simp
    from it True have "pending s = []" by (simp add: export_iter_continue)
    with 1(1) [OF next_pass] 1(4) show ?thesis by simp
  next
    case False
    with 1(2) it have "st' = s" by simp
    with export_iter_stop_ok [of L env after st l s] it False 1(3,4) show ?thesis by simp
  qed
qed

text \<open>The loop over a store of three records with the identities 1, 2, 3, read from 0.\<close>

lemma export_loop_three:
  assumes ids: "Hit.ID h1 = 1" "Hit.ID h2 = 2" "Hit.ID h3 = 3"
    and list: "hits_List env = store_List [h1, h2, h3] 5000"
    and flush: "csv_Flush env 0 = None"
  shows "export_loop L env 0 (export_start e row) =
    Some ((export_start e row)
      \<lparr>exportErr := None,
       job := (job (export_start e row))\<lparr>LastHitID := Some 3, NumRows := Some 3\<rparr>,
       pending := [], artifact := export_header # map (export_row L) [h1, h2, h3],
       flushes := 1\<rparr>)"
proof -
  have first: "hits_List env 0 = ([h1, h2, h3], 3, None)"
    by (simp add: list store_List_def ids)
  have second: "hits_List env 3 = ([], 3, None)"
    by (simp add: list store_List_def ids)
  have f0: "csv_Flush env (flushes (export_start e row)) = None"
    by (simp add: export_start_def flush)
  from export_iter_flushed [OF first _ f0, of L]
  obtain s1 where it1: "export_iter L env 0 (export_start e row) = (True, 3, s1)"
    and s1: "s1 = (export_start e row)
      \<lparr>exportErr := None,
       job := (job (export_start e row))\<lparr>LastHitID := Some 3, NumRows := Some 3\<rparr>,
       pending := [], artifact := export_header # map (export_row L) [h1, h2, h3],
       flushes := 1\<rparr>"
    by (simp add: export_start_def)
  from export_iter_empty [OF second, of L s1]
  have it2: "export_iter L env 3 s1 = (False, 3, s1)"
    by (simp add: s1)
  from export_loop_step [OF it1] export_loop_stop [OF it2] s1 show ?thesis
    by simp
qed

subsection \<open>Failed reads\<close>

text \<open>
  C2. In a run whose loop reaches, after any number \<open>k\<close> of complete passes, a read that
  returns an error (with any batch, the empty one included), the run ends: the message
  of the error is written to the \<^verbatim>\<open>error\<close> column of the job's row (the update
  statement itself succeeding), the artifact file is removed, and neither the row nor
  the struct gets a size or a hash. The job is one that \<^verbatim>\<open>Create\<close> left without size and
  hash.
\<close>

theorem read_error_aborts_run:
  assumes reach: "export_reach L env k (StartFromHitID e) (export_start e row) = Some (after, st)"
    and read: "hits_List env after = (batch, lastID, Some err)"
    and db: "db_set_error env = None"
    and fresh: "Export.Size e = None" "Hash e = None" "Export.Size row = None" "Hash row = None"
  shows "\<exists>r. Run L env e row mailUser = Some r \<and>
           db_row r = row\<lparr>Error := Some (Error_text err)\<rparr> \<and>
           \<not> file_exists r \<and>
           Export.Size (db_row r) = None \<and> Hash (db_row r) = None \<and>
           Export.Size (job r) = None \<and> Hash (job r) = None"
proof -
  let ?st = "st\<lparr>exportErr := Some err, job := (job st)\<lparr>LastHitID := Some lastID\<rparr>\<rparr>"
  have "export_loop L env (StartFromHitID e) (export_start e row) = export_loop L env after st"
    using reach by (rule export_loop_reach)
  also have "\<dots> = Some ?st"
    using export_iter_read_error [OF read] by (rule export_loop_stop)
  finally have run: "Run L env e row mailUser = Some (export_finish L env mailUser ?st)"
    by (simp add: Run_def)
  from export_reach_keeps [OF reach]
  have keep: "db_row st = row" "Export.Size (job st) = Export.Size e" "Hash (job st) = Hash e"
    by (simp_all add: export_start_def)
  show ?thesis
    using run keep db fresh by (simp add: export_finish_def)
qed

theorem read_error_aborts_run_witness:
  "(\<exists>st. export_reach ref_lib read_fails_env 1 (StartFromHitID new_export)
            (export_start new_export new_export) = Some (3, st)) \<and>
   hits_List read_fails_env 3 = ([], 3, Some (External ''Hits.List: connection reset'')) \<and>
   db_set_error read_fails_env = None \<and>
   Export.Size new_export = None \<and> Hash new_export = None \<and>
   (\<exists>r. Run ref_lib read_fails_env new_export new_export False = Some r \<and>
        db_row r = new_export\<lparr>Error := Some ''Hits.List: connection reset''\<rparr> \<and>
        \<not> file_exists r \<and>
        Export.Size (db_row r) = None \<and> Hash (db_row r) = None \<and>
        Export.Size (job r) = None \<and> Hash (job r) = None)"
proof -
  have first: "hits_List read_fails_env 0 = (three_hits, 3, None)"
    by (simp add: read_fails_env_def sample_env_def)
  have flush: "csv_Flush read_fails_env (flushes (export_start new_export new_export)) = None"
    by (simp add: read_fails_env_def sample_env_def)
  have nonempty: "three_hits \<noteq> []"
    by (simp add: three_hits_def)
  from export_iter_flushed [OF first nonempty flush, of ref_lib]
  obtain st where reach: "export_reach ref_lib read_fails_env 1 (StartFromHitID new_export)
      (export_start new_export new_export) = Some (3, st)"
    by (simp add: new_export_def)
  have read: "hits_List read_fails_env 3 =
      ([], 3, Some (External ''Hits.List: connection reset''))"
    by (simp add: read_fails_env_def sample_env_def)
  have db: "db_set_error read_fails_env = None"
    by (simp add: read_fails_env_def sample_env_def)
  have fresh: "Export.Size new_export = None" "Hash new_export = None"
    by (simp_all add: new_export_def)
  from read_error_aborts_run [OF reach read db fresh fresh, of False] reach read db fresh
  show ?thesis
    by auto
qed

subsection \<open>Three records\<close>

text \<open>
  C6. Exporting, from the beginning, a store that holds three records with the
  identities 1, 2 and 3, when every write, close, sync, hash and update succeeds: the
  artifact holds four CSV records, the header and one row per record, and the job's row
  ends with \<^verbatim>\<open>num_rows\<close> 3, \<^verbatim>\<open>last_hit_id\<close> 3, the hash, and no error.
\<close>

theorem export_three_records:
  assumes ids: "Hit.ID h1 = 1" "Hit.ID h2 = 2" "Hit.ID h3 = 3"
    and list: "hits_List env = store_List [h1, h2, h3] 5000"
    and io: "csv_Flush env 0 = None" "gzfp_Close env = None" "fp_Sync env = None"
      "fp_Close env = None" "HashFile env = (digest, None)" "db_finish env = None"
    and start: "StartFromHitID e = 0"
    and noerr: "Error row = None"
  shows "\<exists>r. Run L env e row mailUser = Some r \<and>
           artifact r = export_header # map (export_row L) [h1, h2, h3] \<and>
           length (artifact r) = 4 \<and> pending r = [] \<and> file_exists r \<and>
           NumRows (db_row r) = Some 3 \<and> LastHitID (db_row r) = Some 3 \<and>
           Hash (db_row r) = Some digest \<and> Error (db_row r) = None \<and>
           NumRows (job r) = Some 3 \<and> LastHitID (job r) = Some 3 \<and>
           Hash (job r) = Some digest \<and> Error (job r) = Error e"
proof -
  from export_loop_three [OF ids list io(1), of L e row]
  have run: "Run L env e row mailUser =
      Some (export_finish L env mailUser ((export_start e row)
        \<lparr>exportErr := None,
         job := (job (export_start e row))\<lparr>LastHitID := Some 3, NumRows := Some 3\<rparr>,
         pending := [], artifact := export_header # map (export_row L) [h1, h2, h3],
         flushes := 1\<rparr>))"
    by (simp add: Run_def start)
  show ?thesis
    unfolding run using io noerr by (simp add: export_finish_def export_start_def Let_def)
qed

theorem export_three_records_witness:
  "Hit.ID (sample_hit 1 5) = 1 \<and> Hit.ID (sample_hit 2 5) = 2 \<and> Hit.ID (sample_hit 3 6) = 3 \<and>
   hits_List good_env = store_List [sample_hit 1 5, sample_hit 2 5, sample_hit 3 6] 5000 \<and>
   csv_Flush good_env 0 = None \<and> gzfp_Close good_env = None \<and> fp_Sync good_env = None \<and>
   fp_Close good_env = None \<and> HashFile good_env = (''9f86d081884c7d65'', None) \<and>
   db_finish good_env = None \<and> StartFromHitID new_export = 0 \<and> Error new_export = None \<and>
   (\<exists>r. Run ref_lib good_env new_export new_export False = Some r \<and>
        length (artifact r) = 4 \<and>
        NumRows (db_row r) = Some 3 \<and> LastHitID (db_row r) = Some 3 \<and>
        Hash (db_row r) = Some ''9f86d081884c7d65'' \<and> Error (db_row r) = None)"
proof -
  have ids: "Hit.ID (sample_hit 1 5) = 1" "Hit.ID (sample_hit 2 5) = 2"
      "Hit.ID (sample_hit 3 6) = 3"
    by (simp_all add: sample_hit_def)
  have list: "hits_List good_env = store_List [sample_hit 1 5, sample_hit 2 5, sample_hit 3 6] 5000"
    by (simp add: good_env_def sample_env_def three_hits_def)
  have io: "csv_Flush good_env 0 = None" "gzfp_Close good_env = None" "fp_Sync good_env = None"
      "fp_Close good_env = None" "HashFile good_env = (''9f86d081884c7d65'', None)"
      "db_finish good_env = None"
    by (simp_all add: good_env_def sample_env_def)
  have start: "StartFromHitID new_export = 0" and noerr: "Error new_export = None"
    by (simp_all add: new_export_def)
  from export_three_records [OF ids list io start noerr, of ref_lib False]
  obtain r where "Run ref_lib good_env new_export new_export False = Some r"
    and "length (artifact r) = 4" and "NumRows (db_row r) = Some 3"
    and "LastHitID (db_row r) = Some 3" and "Hash (db_row r) = Some ''9f86d081884c7d65''"
    and "Error (db_row r) = None"
    by blast
  with ids list io start noerr show ?thesis
    by blast
qed

subsection \<open>Failures after the loop\<close>

text \<open>
  C8. When the loop has ended without error and closing the compressed stream, the
  sync of the file, or the hash of the file fails, the run returns with the artifact
  file still there and the job's row as it was: no \<^verbatim>\<open>finished_at\<close>, \<^verbatim>\<open>num_rows\<close>, \<^verbatim>\<open>size\<close>
  or \<^verbatim>\<open>hash\<close> is written, so the hash of a row that had none is still absent. No mail is
  sent.
\<close>

theorem late_failure_leaves_artifact:
  assumes loop: "export_loop L env (StartFromHitID e) (export_start e row) = Some st"
    and ok: "exportErr st = None"
    and fails: "gzfp_Close env \<noteq> None \<or> fp_Sync env \<noteq> None \<or> snd (HashFile env) \<noteq> None"
    and fresh: "Hash row = None"
  shows "\<exists>r. Run L env e row mailUser = Some r \<and> file_exists r \<and> db_row r = row \<and>
           Hash (db_row r) = None \<and> \<not> mail_sent r"
proof -
  from export_loop_keeps [OF loop]
  have keep: "db_row st = row" "file_exists st" "\<not> mail_sent st"
    by (simp_all add: export_start_def)
  have run: "Run L env e row mailUser = Some (export_finish L env mailUser st)"
    using loop by (simp add: Run_def)
  show ?thesis
    using run keep ok fails fresh
    by (auto simp: export_finish_def Let_def split: prod.splits)
qed

theorem late_failure_leaves_artifact_witness:
  "(\<exists>st. export_loop ref_lib hash_fails_env (StartFromHitID new_export)
            (export_start new_export new_export) = Some st \<and> exportErr st = None) \<and>
   snd (HashFile hash_fails_env) \<noteq> None \<and> Hash new_export = None \<and>
   (\<exists>r. Run ref_lib hash_fails_env new_export new_export True = Some r \<and> file_exists r \<and>
        db_row r = new_export \<and> Hash (db_row r) = None \<and> \<not> mail_sent r)"
proof -
  have ids: "Hit.ID (sample_hit 1 5) = 1" "Hit.ID (sample_hit 2 5) = 2"
      "Hit.ID (sample_hit 3 6) = 3"
    by (simp_all add: sample_hit_def)
  have list: "hits_List hash_fails_env =
      store_List [sample_hit 1 5, sample_hit 2 5, sample_hit 3 6] 5000"
    by (simp add: hash_fails_env_def sample_env_def three_hits_def)
  have flush: "csv_Flush hash_fails_env 0 = None"
    by (simp add: hash_fails_env_def sample_env_def)
  from export_loop_three [OF ids list flush, of ref_lib new_export new_export]
  obtain st where loop: "export_loop ref_lib hash_fails_env (StartFromHitID new_export)
      (export_start new_export new_export) = Some st" and ok: "exportErr st = None"
    by (simp add: new_export_def)
  have fails: "gzfp_Close hash_fails_env \<noteq> None \<or> fp_Sync hash_fails_env \<noteq> None \<or>
      snd (HashFile hash_fails_env) \<noteq> None"
    by (simp add: hash_fails_env_def sample_env_def)
  have fresh: "Hash new_export = None"
    by (simp add: new_export_def)
  from late_failure_leaves_artifact [OF loop ok fails fresh, of True] loop ok fails fresh
  show ?thesis
    by (auto simp: hash_fails_env_def sample_env_def)
qed

subsection \<open>The checkpoint\<close>

text \<open>
  C7, as claimed, fails. A run over three records with the identities 1, 2, 3 in which
  the flush of the first batch fails: nothing has been flushed to the compressed stream,
  and the checkpoint \<^verbatim>\<open>e.LastHitID\<close> is 3 already. The job's row keeps its old
  \<^verbatim>\<open>last_hit_id\<close>.
\<close>

theorem checkpoint_advanced_before_flush:
  "map_option (LastHitID \<circ> job) (Run ref_lib flush_fails_env new_export new_export False) =
     Some (Some 3) \<and>
   map_option artifact (Run ref_lib flush_fails_env new_export new_export False) = Some [] \<and>
   map_option exportErr (Run ref_lib flush_fails_env new_export new_export False) =
     Some (Some (External ''write: no space left on device'')) \<and>
   map_option (LastHitID \<circ> db_row) (Run ref_lib flush_fails_env new_export new_export False) =
     Some None"
proof -
  have first: "hits_List flush_fails_env 0 = (three_hits, 3, None)"
    by (simp add: flush_fails_env_def sample_env_def store_List_def three_hits_def
        sample_hit_def)
  have nonempty: "three_hits \<noteq> []"
    by (simp add: three_hits_def)
  have flush: "csv_Flush flush_fails_env (flushes (export_start new_export new_export)) =
      Some (External ''write: no space left on device'')"
    by (simp add: flush_fails_env_def sample_env_def)
  have start: "StartFromHitID new_export = 0"
    by (simp add: new_export_def)
  have db: "db_set_error flush_fails_env = None"
    by (simp add: flush_fails_env_def sample_env_def)
  from export_loop_stop [OF export_iter_flush_error [OF first nonempty flush, of ref_lib]]
  show ?thesis
    by (simp add: Run_def start export_finish_def export_start_def db new_export_def)
qed

text \<open>
  C7, amended. The checkpoint on the job's row (\<^verbatim>\<open>last_hit_id\<close>) is written only by the
  final update of a run: when it has changed, the loop has ended without error, the
  file is still there, and no row of a batch is left unflushed in the CSV writer (the
  writer is empty, or holds only the header of a run that read no record); it is then the
  checkpoint of the struct. The checkpoint of the struct, \<^verbatim>\<open>e.LastHitID\<close>, is set in every
  pass to the identity that the read returned, before the batch is written or
  flushed.
\<close>

theorem checkpoint_persisted_after_flush:
  assumes run: "Run L env e row mailUser = Some r"
    and changed: "LastHitID (db_row r) \<noteq> LastHitID row"
  shows "exportErr r = None \<and> file_exists r \<and>
         (pending r = [] \<or> (pending r = [export_header] \<and> artifact r = [])) \<and>
         LastHitID (db_row r) = LastHitID (job r) \<and>
         LastHitID (job (snd (snd (export_iter L env after st)))) =
           Some (fst (snd (hits_List env after)))"
proof -
  from run obtain s where loop: "export_loop L env (StartFromHitID e) (export_start e row) = Some s"
    and r: "r = export_finish L env mailUser s"
    by (auto simp: Run_def)
  from export_loop_keeps [OF loop]
  have keep: "db_row s = row" "file_exists s"
    by (simp_all add: export_start_def)
  have ok: "exportErr s = None"
    using changed r keep
    by (cases "exportErr s") (auto simp: export_finish_def split: if_splits)
  have flushed: "pending s = [] \<or> (pending s = [export_header] \<and> artifact s = [])"
    using export_loop_flushed [OF loop _ ok] by (simp add: export_start_def)
  have fin: "exportErr r = None \<and> file_exists r \<and> pending r = pending s \<and>
      artifact r = artifact s \<and> LastHitID (db_row r) = LastHitID (job r)"
    using changed r keep ok
    by (auto simp: export_finish_def Let_def split: prod.splits if_splits)
  have early: "LastHitID (job (snd (snd (export_iter L env after st)))) =
      Some (fst (snd (hits_List env after)))"
    by (auto simp: export_iter_def Let_def split: prod.splits option.splits)
  from fin flushed early show ?thesis by simp
qed

theorem checkpoint_persisted_after_flush_witness:
  "\<exists>r. Run ref_lib good_env new_export new_export False = Some r \<and>
       LastHitID (db_row r) \<noteq> LastHitID new_export \<and>
       LastHitID (db_row r) = Some 3 \<and>
       exportErr r = None \<and> file_exists r \<and> pending r = [] \<and>
       LastHitID (db_row r) = LastHitID (job r)"
proof -
  have ids: "Hit.ID (sample_hit 1 5) = 1" "Hit.ID (sample_hit 2 5) = 2"
      "Hit.ID (sample_hit 3 6) = 3"
    by (simp_all add: sample_hit_def)
  have list: "hits_List good_env = store_List [sample_hit 1 5, sample_hit 2 5, sample_hit 3 6] 5000"
    by (simp add: good_env_def sample_env_def three_hits_def)
  have io: "csv_Flush good_env 0 = None" "gzfp_Close good_env = None" "fp_Sync good_env = None"
      "fp_Close good_env = None" "HashFile good_env = (''9f86d081884c7d65'', None)"
      "db_finish good_env = None"
    by (simp_all add: good_env_def sample_env_def)
  have start: "StartFromHitID new_export = 0" and none: "LastHitID new_export = None"
    by (simp_all add: new_export_def)
  from export_loop_three [OF ids list io(1), of ref_lib new_export new_export]
  obtain r where run: "Run ref_lib good_env new_export new_export False = Some r"
    and last: "LastHitID (db_row r) = Some 3" and empty: "pending r = []"
    using io by (simp add: Run_def start export_finish_def export_start_def Let_def)
  from last none have changed: "LastHitID (db_row r) \<noteq> LastHitID new_export"
    by simp
  from checkpoint_persisted_after_flush [OF run changed] run changed last empty
  show ?thesis
    by blast
qed

section \<open>Round trip of the row codec\<close>

text \<open>
  C4, as claimed, fails. A valid record with identity 7 and session identity 5, written
  as a row and decoded for site 1 (its own site): the decoded record has identity 0 and
  session identity 0, and is not the record that was encoded.
\<close>

theorem round_trip_loses_session:
  "decode_row ref_lib 1 (export_row ref_lib (sample_hit 7 5)) =
     Inr ((sample_hit 7 5)\<lparr>Hit.ID := 0, Hit.Session := 0\<rparr>) \<and>
   decode_row ref_lib 1 (export_row ref_lib (sample_hit 7 5)) \<noteq> Inr (sample_hit 7 5)"
  by code_simp

text \<open>
  C4, amended. For every record that is valid for the codec, encoding it as a row and
  decoding the row gives back the record in every field that the decoder reads from the
  row: path, title, event flag, bot code, first-visit flag, referrer, referrer scheme,
  browser, screen size, location and timestamp. The decoder does not restore the
  record identity nor the session identities (they are zero and absent; the import
  assigns the remapped session afterwards), and the site is the importing one.
\<close>

theorem codec_round_trip:
  assumes "codec_valid L h"
  shows "decode_row L siteID (export_row L h) =
     Inr (h\<lparr>Hit.ID := 0, Hit.Site := siteID, Hit.Session := 0, Hit.OldSession := None\<rparr>)"
proof -
  have rd: "Read (export_row L h) =
      Inr \<lparr>ExportRow.Path = Hit.Path h, ExportRow.Title = Hit.Title h,
           ExportRow.Event = fmt_t (Hit.Event h), ExportRow.Bot = FormatInt (Hit.Bot h),
           ExportRow.Session = (case Hit.OldSession h of Some old \<Rightarrow> FormatInt old
                                | None \<Rightarrow> uuid_String L (Hit.Session h)),
           ExportRow.FirstVisit = fmt_t (Hit.FirstVisit h), ExportRow.Ref = Hit.Ref h,
           ExportRow.RefScheme = (case Hit.RefScheme h of Some r \<Rightarrow> r | None \<Rightarrow> ''''),
           ExportRow.Browser = Hit.Browser h, ExportRow.Size = zfloat_Join L (Hit.Size h),
           ExportRow.Location = Hit.Location h,
           ExportRow.CreatedAt = time_Format L (Hit.CreatedAt h)\<rparr>"
    by (simp add: Read_def export_row_def Let_def)
  show ?thesis
  proof (cases "Hit.Size h = []")
    case True
    with assms show ?thesis
      by (cases "Hit.RefScheme h")
        (simp_all add: decode_row_def rd Hit_def codec_valid_def v_check_def ErrorOrNil_def
          Let_def)
  next
    case False
    with assms show ?thesis
      by (cases "Hit.RefScheme h")
        (simp_all add: decode_row_def rd Hit_def codec_valid_def v_check_def ErrorOrNil_def
          Let_def)
  qed
qed

theorem codec_round_trip_witness:
  "codec_valid ref_lib (sample_hit 7 5) \<and>
   decode_row ref_lib 2 (export_row ref_lib (sample_hit 7 5)) =
     Inr ((sample_hit 7 5)\<lparr>Hit.ID := 0, Hit.Site := 2, Hit.Session := 0,
            Hit.OldSession := None\<rparr>)"
proof -
  have valid: "codec_valid ref_lib (sample_hit 7 5)"
    by code_simp
  from codec_round_trip [OF valid, of 2] valid show ?thesis
    by simp
qed

end
